theory Spec2Isabelle
  imports Complex_Main "HOL-Library.Multiset" "HOL-Library.Char_ord" "HOL-Library.List_Lexorder"
begin

section \<open>Python values used by \<open>ExpenseLogic\<close>\<close>

text \<open>
  The backend class \<open>ExpenseLogic\<close> of \<open>tracker.py\<close> stores amounts as Python floats.
  A float is modelled by its exact value: a finite float is the rational number it denotes,
  \<open>Finite 0\<close> being the positive zero, and the other values that \<open>float()\<close> can produce
  from a string (\<open>-0.0\<close>, \<open>inf\<close>, \<open>-inf\<close>, \<open>nan\<close>) are constructors of their own. Rounding
  of finite results to 53 bits, with the overflow and underflow it brings, is not modelled:
  arithmetic on finite values is exact.

  Strings are \<open>char list\<close>. Whitespace, digits and letter case are modelled for ASCII;
  a byte above 127 is neither whitespace, nor a digit, nor a cased letter.
\<close>

datatype pyfloat = Finite rat | NegZero | PosInf | NegInf | NaN

fun fadd :: "pyfloat \<Rightarrow> pyfloat \<Rightarrow> pyfloat" where
  "fadd NaN _ = NaN"
| "fadd _ NaN = NaN"
| "fadd PosInf NegInf = NaN"
| "fadd NegInf PosInf = NaN"
| "fadd PosInf _ = PosInf"
| "fadd _ PosInf = PosInf"
| "fadd NegInf _ = NegInf"
| "fadd _ NegInf = NegInf"
| "fadd NegZero y = y"
| "fadd x NegZero = x"
| "fadd (Finite a) (Finite b) = Finite (a + b)"

fun fneg :: "pyfloat \<Rightarrow> pyfloat" where
  "fneg (Finite a) = (if a = 0 then NegZero else Finite (- a))"
| "fneg NegZero = Finite 0"
| "fneg PosInf = NegInf"
| "fneg NegInf = PosInf"
| "fneg NaN = NaN"

definition fsub :: "pyfloat \<Rightarrow> pyfloat \<Rightarrow> pyfloat" where
  "fsub x y = fadd x (fneg y)"

fun fabs :: "pyfloat \<Rightarrow> pyfloat" where
  "fabs (Finite a) = Finite \<bar>a\<bar>"
| "fabs NegZero = Finite 0"
| "fabs PosInf = PosInf"
| "fabs NegInf = PosInf"
| "fabs NaN = NaN"

text \<open>\<open>x < 0\<close> and \<open>x >= 0\<close> on floats; every comparison with \<open>nan\<close> is false.\<close>

fun flt0 :: "pyfloat \<Rightarrow> bool" where
  "flt0 (Finite a) = (a < 0)"
| "flt0 NegZero = False"
| "flt0 PosInf = False"
| "flt0 NegInf = True"
| "flt0 NaN = False"

fun fge0 :: "pyfloat \<Rightarrow> bool" where
  "fge0 (Finite a) = (0 \<le> a)"
| "fge0 NegZero = True"
| "fge0 PosInf = True"
| "fge0 NegInf = False"
| "fge0 NaN = False"

text \<open>The builtin \<open>sum\<close>: a left fold that starts at \<open>0\<close>.\<close>

definition py_sum :: "pyfloat list \<Rightarrow> pyfloat" where
  "py_sum xs = foldl fadd (Finite 0) xs"

subsection \<open>Characters\<close>

text \<open>The value of an ASCII digit (code points 48 to 57).\<close>

definition digit_val :: "char \<Rightarrow> nat option" where
  "digit_val c = (let n = (of_char c :: nat) in if 48 \<le> n \<and> n \<le> 57 then Some (n - 48) else None)"

definition is_digit :: "char \<Rightarrow> bool" where
  "is_digit c = (digit_val c \<noteq> None)"

definition digit_char :: "nat \<Rightarrow> char" where
  "digit_char n = ''0123456789'' ! (n mod 10)"

text \<open>\<open>str.isspace\<close> on ASCII: tab, newline, vertical tab, form feed, carriage return,
  the four separators 0x1C..0x1F and the space.\<close>

definition is_space :: "char \<Rightarrow> bool" where
  "is_space c = (let n = (of_char c :: nat) in (9 \<le> n \<and> n \<le> 13) \<or> (28 \<le> n \<and> n \<le> 32))"

definition is_upper :: "char \<Rightarrow> bool" where
  "is_upper c = (let n = (of_char c :: nat) in 65 \<le> n \<and> n \<le> 90)"

definition is_lower :: "char \<Rightarrow> bool" where
  "is_lower c = (let n = (of_char c :: nat) in 97 \<le> n \<and> n \<le> 122)"

definition to_lower :: "char \<Rightarrow> char" where
  "to_lower c = (if is_upper c then char_of ((of_char c :: nat) + 32) else c)"

definition to_upper :: "char \<Rightarrow> char" where
  "to_upper c = (if is_lower c then char_of ((of_char c :: nat) - 32) else c)"

text \<open>\<open>str.strip()\<close>: leading and trailing whitespace removed.\<close>

definition strip :: "string \<Rightarrow> string" where
  "strip s = rev (dropWhile is_space (rev (dropWhile is_space s)))"

text \<open>\<open>str.title()\<close>: a cased character that follows a cased character is lowered, any
  other cased character is raised; uncased characters are kept.\<close>

fun title_from :: "bool \<Rightarrow> string \<Rightarrow> string" where
  "title_from prev [] = []"
| "title_from prev (c # cs) =
     (if prev then to_lower c else to_upper c) # title_from (is_upper c \<or> is_lower c) cs"

definition title :: "string \<Rightarrow> string" where
  "title s = title_from False s"

definition startswith :: "string \<Rightarrow> string \<Rightarrow> bool" where
  "startswith s p = (take (length p) s = p)"

subsection \<open>\<open>float(str)\<close>\<close>

text \<open>
  \<open>float\<close> applied to a string first checks and removes digit-grouping underscores (an
  underscore must stand between two digits), then strips the whitespace of C (the space
  and the code points 9 to 13, not the separators 0x1C..0x1F that \<open>str.strip\<close> removes),
  then reads an optional sign followed by \<open>inf\<close>, \<open>infinity\<close> or \<open>nan\<close> in any letter
  case, or by a decimal number with an optional exponent. Anything else raises
  \<open>ValueError\<close>, here \<open>None\<close>.
\<close>

definition is_c_space :: "char \<Rightarrow> bool" where
  "is_c_space c = (let n = (of_char c :: nat) in (9 \<le> n \<and> n \<le> 13) \<or> n = 32)"

definition c_strip :: "string \<Rightarrow> string" where
  "c_strip s = rev (dropWhile is_c_space (rev (dropWhile is_c_space s)))"

fun remove_underscores :: "char \<Rightarrow> string \<Rightarrow> string option" where
  "remove_underscores prev [] = (if prev = CHR ''_'' then None else Some [])"
| "remove_underscores prev (c # cs) =
     (if c = CHR ''_'' then
        (if is_digit prev then remove_underscores c cs else None)
      else if prev = CHR ''_'' \<and> \<not> is_digit c then None
      else map_option ((#) c) (remove_underscores c cs))"

definition dval :: "char \<Rightarrow> nat" where
  "dval c = (case digit_val c of Some d \<Rightarrow> d | None \<Rightarrow> 0)"

definition nat_of_digits :: "string \<Rightarrow> nat" where
  "nat_of_digits ds = foldl (\<lambda>n c. 10 * n + dval c) 0 ds"

definition parse_exponent :: "string \<Rightarrow> int option" where
  "parse_exponent s =
     (case s of
        [] \<Rightarrow> Some 0
      | c # cs \<Rightarrow>
          if c = CHR ''e'' \<or> c = CHR ''E'' then
            (let neg = (case cs of [] \<Rightarrow> False | d # _ \<Rightarrow> d = CHR ''-'');
                 ds = (case cs of [] \<Rightarrow> []
                       | d # r \<Rightarrow> if d = CHR ''+'' \<or> d = CHR ''-'' then r else cs)
             in if ds \<noteq> [] \<and> list_all is_digit ds
                then Some (if neg then - int (nat_of_digits ds) else int (nat_of_digits ds))
                else None)
          else None)"

definition scale10 :: "rat \<Rightarrow> int \<Rightarrow> rat" where
  "scale10 m e = (if 0 \<le> e then m * 10 ^ nat e else m / 10 ^ nat (- e))"

definition parse_decimal :: "string \<Rightarrow> rat option" where
  "parse_decimal s =
     (let ip = takeWhile is_digit s;
          r1 = dropWhile is_digit s;
          dot = (case r1 of [] \<Rightarrow> False | c # _ \<Rightarrow> c = CHR ''.'');
          fp = (if dot then takeWhile is_digit (tl r1) else []);
          r2 = (if dot then dropWhile is_digit (tl r1) else r1)
      in if ip = [] \<and> fp = [] then None
         else map_option
                (\<lambda>e. scale10 (of_nat (nat_of_digits (ip @ fp))) (e - int (length fp)))
                (parse_exponent r2))"

definition parse_unsigned :: "string \<Rightarrow> pyfloat option" where
  "parse_unsigned s =
     (let l = map to_lower s
      in if l = ''inf'' \<or> l = ''infinity'' then Some PosInf
         else if l = ''nan'' then Some NaN
         else map_option Finite (parse_decimal s))"

definition py_float :: "string \<Rightarrow> pyfloat option" where
  "py_float s =
     (case remove_underscores (CHR 0x00) s of
        None \<Rightarrow> None
      | Some t \<Rightarrow>
          (case c_strip t of
             [] \<Rightarrow> None
           | c # cs \<Rightarrow>
               if c = CHR ''-'' then map_option fneg (parse_unsigned cs)
               else if c = CHR ''+'' then parse_unsigned cs
               else parse_unsigned (c # cs)))"

subsection \<open>\<open>datetime.strptime(s, '%Y-%m-%d').strftime('%Y-%m-%d')\<close>\<close>

text \<open>
  \<open>strptime\<close> turns the format into the regular expression
  \<^verbatim>\<open>(?P<Y>\d\d\d\d)-(?P<m>1[0-2]|0[1-9]|[1-9])-(?P<d>3[0-1]|[1-2]\d|0[1-9]|[1-9]| [1-9])\<close>,
  matches it at the start of the string, raises \<open>ValueError\<close> when there is no match or
  when text remains after the match, and raises \<open>ValueError\<close> again when the three numbers
  are not a date of the calendar (years 1 to 9999). The alternatives of a group are tried
  in their order; the functions below list, in that order, what each group can match.
\<close>

definition is_pos_digit :: "char \<Rightarrow> bool" where
  "is_pos_digit c = (is_digit c \<and> c \<noteq> CHR ''0'')"

definition month_alts :: "string \<Rightarrow> (nat \<times> string) list" where
  "month_alts s =
     (case s of
        a # b # r \<Rightarrow>
          (if a = CHR ''1'' \<and> (b = CHR ''0'' \<or> b = CHR ''1'' \<or> b = CHR ''2'')
           then [(10 + dval b, r)] else [])
          @ (if a = CHR ''0'' \<and> is_pos_digit b then [(dval b, r)] else [])
          @ (if is_pos_digit a then [(dval a, b # r)] else [])
      | [a] \<Rightarrow> (if is_pos_digit a then [(dval a, [])] else [])
      | [] \<Rightarrow> [])"

definition day_alts :: "string \<Rightarrow> (nat \<times> string) list" where
  "day_alts s =
     (case s of
        a # b # r \<Rightarrow>
          (if a = CHR ''3'' \<and> (b = CHR ''0'' \<or> b = CHR ''1'')
           then [(30 + dval b, r)] else [])
          @ (if (a = CHR ''1'' \<or> a = CHR ''2'') \<and> is_digit b
             then [(10 * dval a + dval b, r)] else [])
          @ (if a = CHR ''0'' \<and> is_pos_digit b then [(dval b, r)] else [])
          @ (if is_pos_digit a then [(dval a, b # r)] else [])
          @ (if a = CHR '' '' \<and> is_pos_digit b then [(dval b, r)] else [])
      | [a] \<Rightarrow> (if is_pos_digit a then [(dval a, [])] else [])
      | [] \<Rightarrow> [])"

definition after_dash :: "string \<Rightarrow> string option" where
  "after_dash s = (case s of [] \<Rightarrow> None | c # r \<Rightarrow> if c = CHR ''-'' then Some r else None)"

definition regex_matches :: "string \<Rightarrow> (nat \<times> nat \<times> nat \<times> string) list" where
  "regex_matches s =
     (if length s < 4 \<or> \<not> list_all is_digit (take 4 s) then []
      else case after_dash (drop 4 s) of
             None \<Rightarrow> []
           | Some r0 \<Rightarrow>
               concat (map (\<lambda>(m, r1).
                  case after_dash r1 of
                    None \<Rightarrow> []
                  | Some r2 \<Rightarrow> map (\<lambda>(d, r3). (nat_of_digits (take 4 s), m, d, r3)) (day_alts r2))
                (month_alts r0)))"

definition is_leap :: "nat \<Rightarrow> bool" where
  "is_leap y = (y mod 4 = 0 \<and> (y mod 100 \<noteq> 0 \<or> y mod 400 = 0))"

definition days_in_month :: "nat \<Rightarrow> nat \<Rightarrow> nat" where
  "days_in_month y m =
     (if m = 2 then (if is_leap y then 29 else 28)
      else if m = 4 \<or> m = 6 \<or> m = 9 \<or> m = 11 then 30 else 31)"

definition valid_date :: "nat \<Rightarrow> nat \<Rightarrow> nat \<Rightarrow> bool" where
  "valid_date y m d = (1 \<le> y \<and> y \<le> 9999 \<and> 1 \<le> m \<and> m \<le> 12 \<and> 1 \<le> d \<and> d \<le> days_in_month y m)"

definition strptime :: "string \<Rightarrow> (nat \<times> nat \<times> nat) option" where
  "strptime s =
     (case regex_matches s of
        [] \<Rightarrow> None
      | (y, m, d, rest) # _ \<Rightarrow>
          if rest \<noteq> [] then None
          else if valid_date y m d then Some (y, m, d) else None)"

definition pad2 :: "nat \<Rightarrow> string" where
  "pad2 n = [digit_char (n div 10), digit_char n]"

definition pad4 :: "nat \<Rightarrow> string" where
  "pad4 n = [digit_char (n div 1000), digit_char (n div 100), digit_char (n div 10), digit_char n]"

text \<open>
  \<open>strftime('%Y-%m-%d')\<close> and \<open>strftime('%Y-%m')\<close>. The year is written with four
  digits, as the library documents \<open>%Y\<close>; the C library of some platforms writes a year
  below 1000 without its leading zeros, and no property below depends on how such a year
  is written.
\<close>

definition strftime_ymd :: "nat \<times> nat \<times> nat \<Rightarrow> string" where
  "strftime_ymd t = (case t of (y, m, d) \<Rightarrow> pad4 y @ ''-'' @ pad2 m @ ''-'' @ pad2 d)"

definition strftime_ym :: "nat \<times> nat \<times> nat \<Rightarrow> string" where
  "strftime_ym t = (case t of (y, m, d) \<Rightarrow> pad4 y @ ''-'' @ pad2 m)"

subsection \<open>The format specification \<open>.2f\<close>\<close>

text \<open>
  \<open>f"{x:.2f}"\<close> writes the decimal number with two fractional digits that is nearest to
  the exact value of \<open>x\<close>, a tie going to the even last digit, after a minus sign when the
  sign bit of \<open>x\<close> is set; infinities and \<open>nan\<close> are written as words.
\<close>

fun show_nat :: "nat \<Rightarrow> string" where
  "show_nat n = (if n < 10 then [digit_char n] else show_nat (n div 10) @ [digit_char n])"

declare show_nat.simps [simp del]

definition round_half_even :: "rat \<Rightarrow> int" where
  "round_half_even x =
     (let f = \<lfloor>x\<rfloor>; r = x - of_int f
      in if r < 1 / 2 then f else if 1 / 2 < r then f + 1 else if even f then f else f + 1)"

definition fixed2 :: "rat \<Rightarrow> string" where
  "fixed2 x = (let n = nat (round_half_even (x * 100))
               in show_nat (n div 100) @ ''.'' @ pad2 (n mod 100))"

fun format_2f :: "pyfloat \<Rightarrow> string" where
  "format_2f (Finite r) = (if r < 0 then ''-'' @ fixed2 (- r) else fixed2 r)"
| "format_2f NegZero = ''-0.00''"
| "format_2f PosInf = ''inf''"
| "format_2f NegInf = ''-inf''"
| "format_2f NaN = ''nan''"

section \<open>The state of \<open>ExpenseLogic\<close> and of the data file\<close>

record transaction =
  tx_id :: nat
  tx_type :: string
  tx_amount :: pyfloat
  tx_category :: string
  tx_description :: string
  tx_date :: string

text \<open>The attributes of an \<open>ExpenseLogic\<close> object. The table \<open>currencies\<close> is a constant
  that no method below reads, and is left out.\<close>

record logic =
  transactions :: "transaction list"
  categories :: "string \<rightharpoonup> string list"
  budgets :: "string \<rightharpoonup> pyfloat"
  currency_symbol :: string

text \<open>The exceptions that leave a method uncaught.\<close>

datatype exn = KeyError string | UnicodeDecodeError | AttributeError

text \<open>
  The file \<open>expense_data.json\<close> is one of:
  \<^item> \<open>Absent\<close>: there is no file;
  \<^item> \<open>Corrupt\<close>: the file cannot be opened or read (\<open>IOError\<close>), or its text is not
    JSON (\<open>JSONDecodeError\<close>); these are the two exceptions that \<open>load_data\<close> catches;
  \<^item> \<open>NotText\<close>: the bytes of the file are not text in the encoding it is opened with, so
    that reading it raises \<open>UnicodeDecodeError\<close>, which \<open>load_data\<close> does not catch;
  \<^item> \<open>NotObject\<close>: the text is JSON, but not a JSON object (a list, a number, ...), so
    that \<open>data.get\<close> raises \<open>AttributeError\<close>, which \<open>load_data\<close> does not catch;
  \<^item> \<open>Doc\<close>: a JSON object, in which each of the four keys may be missing.

  A document is taken to be well-typed: the values under its keys have the shape that
  \<open>save_data\<close> writes. It is represented by the values that \<open>json.load\<close> returns for
  it. \<open>json.dump\<close> writes a dictionary with string keys, a list, a string, an integer
  and a float (by \<open>repr\<close>, or as \<open>NaN\<close>, \<open>Infinity\<close>, \<open>-Infinity\<close>) in a form from which
  \<open>json.load\<close> builds new objects with the same content; \<open>dump\<close> is that content. The
  objects that \<open>json.load\<close> builds are not the objects that were written: what Python's
  \<open>==\<close> says of a state and of the state loaded back is \<open>py_eq_logic\<close> below, not the
  equality of the contents.

  \<open>writable\<close> tells whether opening the file for writing succeeds; when it does not,
  \<open>save_data\<close> catches the \<open>IOError\<close> and the file stays as it was.
\<close>

record document =
  doc_transactions :: "transaction list option"
  doc_categories :: "(string \<rightharpoonup> string list) option"
  doc_budgets :: "(string \<rightharpoonup> pyfloat) option"
  doc_currency_symbol :: "string option"

datatype data_file = Absent | Corrupt | NotText | NotObject | Doc document

record disk =
  content :: data_file
  writable :: bool

definition dump :: "logic \<Rightarrow> document" where
  "dump l = \<lparr>doc_transactions = Some (transactions l), doc_categories = Some (categories l),
             doc_budgets = Some (budgets l), doc_currency_symbol = Some (currency_symbol l)\<rparr>"

definition save_data :: "logic \<Rightarrow> disk \<Rightarrow> disk" where
  "save_data l d = (if writable d then d\<lparr>content := Doc (dump l)\<rparr> else d)"

definition load_data :: "logic \<Rightarrow> disk \<Rightarrow> exn + logic \<times> disk" where
  "load_data l d =
     (case content d of
        Doc j \<Rightarrow>
          Inr (l\<lparr>transactions := (case doc_transactions j of None \<Rightarrow> [] | Some ts \<Rightarrow> ts),
                 categories := (case doc_categories j of None \<Rightarrow> categories l | Some cs \<Rightarrow> cs),
                 budgets := (case doc_budgets j of None \<Rightarrow> Map.empty | Some bs \<Rightarrow> bs),
                 currency_symbol := (case doc_currency_symbol j of None \<Rightarrow> ''$'' | Some c \<Rightarrow> c)\<rparr>,
               d)
      | NotText \<Rightarrow> Inl UnicodeDecodeError
      | NotObject \<Rightarrow> Inl AttributeError
      | Corrupt \<Rightarrow> Inr (l, save_data l d)
      | Absent \<Rightarrow> Inr (l, save_data l d))"

definition default_categories :: "string \<rightharpoonup> string list" where
  "default_categories =
     [''expense'' \<mapsto> [''Groceries'', ''Rent'', ''Transport'', ''Dining'', ''Utilities'', ''Other''],
      ''income'' \<mapsto> [''Salary'', ''Bonus'', ''Gifts'', ''Other'']]"

definition defaults :: logic where
  "defaults = \<lparr>transactions = [], categories = default_categories, budgets = Map.empty,
               currency_symbol = ''$''\<rparr>"

text \<open>\<open>__init__\<close>: the defaults, then \<open>load_data\<close>, whose exceptions leave \<open>__init__\<close> too.\<close>

definition init :: "disk \<Rightarrow> exn + logic \<times> disk" where
  "init d = load_data defaults d"

subsection \<open>Comparing two states with \<open>==\<close>\<close>





section \<open>The methods\<close>

definition get_currency_symbol :: "logic \<Rightarrow> string" where
  "get_currency_symbol l = currency_symbol l"

definition set_currency :: "logic \<Rightarrow> disk \<Rightarrow> string \<Rightarrow> logic \<times> disk" where
  "set_currency l d new_symbol =
     (let l' = l\<lparr>currency_symbol := new_symbol\<rparr> in (l', save_data l' d))"

definition format_currency :: "logic \<Rightarrow> pyfloat \<Rightarrow> string" where
  "format_currency l amount = currency_symbol l @ format_2f amount"

text \<open>\<open>list.sort(key=..., reverse=True)\<close>: the list is reversed, sorted by a stable
  ascending sort and reversed again, so equal keys keep their order.\<close>

definition sort_reverse :: "('a \<Rightarrow> 'k::linorder) \<Rightarrow> 'a list \<Rightarrow> 'a list" where
  "sort_reverse f xs = rev (sort_key f (rev xs))"

text \<open>
  \<open>add_transaction\<close>. Both \<open>float(amount)\<close> and \<open>strptime\<close> raise \<open>ValueError\<close>, which
  one handler turns into one message. With string arguments and a well-typed ledger no
  other exception arises, so the handler for \<open>Exception\<close> has no branch here.
\<close>

definition add_transaction ::
  "logic \<Rightarrow> disk \<Rightarrow> string \<Rightarrow> string \<Rightarrow> string \<Rightarrow> string \<Rightarrow> string
     \<Rightarrow> (bool \<times> string) \<times> logic \<times> disk" where
  "add_transaction l d trans_type amount category description date_str =
     (case py_float amount of
        None \<Rightarrow> ((False, ''Invalid amount or date format (YYYY-MM-DD).''), l, d)
      | Some a \<Rightarrow>
          (case strptime date_str of
             None \<Rightarrow> ((False, ''Invalid amount or date format (YYYY-MM-DD).''), l, d)
           | Some dt \<Rightarrow>
               (let t = \<lparr>tx_id = length (transactions l) + 1, tx_type = trans_type,
                         tx_amount = fabs a, tx_category = category,
                         tx_description = description, tx_date = strftime_ymd dt\<rparr>;
                    l' = l\<lparr>transactions := sort_reverse tx_date (transactions l @ [t])\<rparr>
                in ((True, ''Transaction added successfully.''), l', save_data l' d))))"

definition get_categories :: "logic \<Rightarrow> string \<Rightarrow> string list" where
  "get_categories l trans_type = (case categories l trans_type of None \<Rightarrow> [] | Some cs \<Rightarrow> cs)"

text \<open>
  \<open>add_category\<close>. The condition \<open>new_category and new_category not in
  self.categories[trans_type]\<close> looks the type up only when the name is not empty; the
  lookup of a type that is not a key raises \<open>KeyError\<close>, which nothing catches.
\<close>

definition add_category ::
  "logic \<Rightarrow> disk \<Rightarrow> string \<Rightarrow> string \<Rightarrow> exn + ((bool \<times> string) \<times> logic \<times> disk)" where
  "add_category l d new_category trans_type =
     (let n = title (strip new_category)
      in if n \<noteq> [] then
           (case categories l trans_type of
              None \<Rightarrow> Inl (KeyError trans_type)
            | Some cs \<Rightarrow>
                if n \<notin> set cs then
                  (let l' = l\<lparr>categories := (categories l)(trans_type \<mapsto> cs @ [n])\<rparr>
                   in Inr ((True, ''Category '' @ [CHR 0x27] @ n @ [CHR 0x27] @ '' added.''),
                           l', save_data l' d))
                else Inr ((False, ''Category already exists.''), l, d))
         else Inr ((False, ''Category name cannot be empty.''), l, d))"

definition get_budgets :: "logic \<Rightarrow> (string \<rightharpoonup> pyfloat)" where
  "get_budgets l = budgets l"

definition set_budget ::
  "logic \<Rightarrow> disk \<Rightarrow> string \<Rightarrow> string \<Rightarrow> (bool \<times> string) \<times> logic \<times> disk" where
  "set_budget l d category amount =
     (case py_float amount of
        None \<Rightarrow> ((False, ''Invalid amount.''), l, d)
      | Some a \<Rightarrow>
          if flt0 a then ((False, ''Budget amount cannot be negative.''), l, d)
          else (let l' = l\<lparr>budgets := (budgets l)(category \<mapsto> a)\<rparr>
                in ((True, ''Budget for '' @ category @ '' set to '' @ format_currency l' a @ ''.''),
                    l', save_data l' d)))"

record report =
  month_name :: string
  total_income :: pyfloat
  total_expense :: pyfloat
  net_savings :: pyfloat
  spending_by_category :: "string \<rightharpoonup> pyfloat"

definition month_names :: "string list" where
  "month_names = [''January'', ''February'', ''March'', ''April'', ''May'', ''June'', ''July'',
                  ''August'', ''September'', ''October'', ''November'', ''December'']"

text \<open>\<open>strftime('%B %Y')\<close>, in the C locale.\<close>

definition strftime_BY :: "nat \<times> nat \<times> nat \<Rightarrow> string" where
  "strftime_BY t = (case t of (y, m, d) \<Rightarrow> month_names ! (m - 1) @ '' '' @ pad4 y)"

text \<open>One round of the loop over \<open>month_transactions\<close>; \<open>spending_by_category\<close> is a
  \<open>defaultdict(float)\<close>, so a category not yet seen counts as \<open>0.0\<close>.\<close>

definition spend_step :: "transaction \<Rightarrow> (string \<rightharpoonup> pyfloat) \<Rightarrow> (string \<rightharpoonup> pyfloat)" where
  "spend_step t m =
     (if tx_type t = ''expense''
      then m(tx_category t \<mapsto>
               fadd (case m (tx_category t) of None \<Rightarrow> Finite 0 | Some v \<Rightarrow> v) (tx_amount t))
      else m)"

text \<open>\<open>get_monthly_report_data\<close>; \<open>now\<close> is what \<open>datetime.now()\<close> returns, as year, month
  and day.\<close>

definition get_monthly_report_data :: "logic \<Rightarrow> nat \<times> nat \<times> nat \<Rightarrow> report" where
  "get_monthly_report_data l now =
     (let current_month_str = strftime_ym now;
          month_transactions =
            filter (\<lambda>t. startswith (tx_date t) current_month_str) (transactions l);
          income = py_sum (map tx_amount (filter (\<lambda>t. tx_type t = ''income'') month_transactions));
          expense = py_sum (map tx_amount (filter (\<lambda>t. tx_type t = ''expense'') month_transactions))
      in \<lparr>month_name = strftime_BY now, total_income = income, total_expense = expense,
          net_savings = fsub income expense,
          spending_by_category = fold spend_step month_transactions Map.empty\<rparr>)"

section \<open>States used as examples\<close>

definition fresh_disk :: disk where
  "fresh_disk = \<lparr>content = Absent, writable = True\<rparr>"

definition tx :: "nat \<Rightarrow> string \<Rightarrow> rat \<Rightarrow> string \<Rightarrow> string \<Rightarrow> transaction" where
  "tx i ty a c dt = \<lparr>tx_id = i, tx_type = ty, tx_amount = Finite a, tx_category = c,
                     tx_description = [], tx_date = dt\<rparr>"

definition two_entries :: logic where
  "two_entries = defaults\<lparr>transactions :=
     [tx 1 ''expense'' 40 ''Dining'' ''2024-01-10'', tx 2 ''income'' 900 ''Salary'' ''2024-02-20'']\<rparr>"

definition march_ledger :: logic where
  "march_ledger = defaults\<lparr>transactions :=
     [tx 1 ''income'' 1000 ''Salary'' ''2024-03-05'', tx 2 ''expense'' 300 ''Rent'' ''2024-03-01'',
      tx 3 ''expense'' 50 ''Dining'' ''2024-02-27'']\<rparr>"




definition euro :: string where
  "euro = [CHR 0xE2, CHR 0x82, CHR 0xAC]"

section \<open>An invariant of the category names\<close>

text \<open>The stored category names are their own trimmed and title-cased forms.\<close>

definition names_normalized :: "logic \<Rightarrow> bool" where
  "names_normalized l = (\<forall>ty cs. categories l ty = Some cs \<longrightarrow> (\<forall>c\<in>set cs. title (strip c) = c))"

section \<open>Properties\<close>

subsection \<open>Auxiliary facts\<close>

lemma mset_sort_reverse: "mset (sort_reverse f xs) = mset xs"
  by (simp add: sort_reverse_def)

lemma sorted_sort_reverse: "sorted_wrt (\<lambda>a b. f b \<le> f a) (sort_reverse f xs)"
proof -
  have "sorted (map f (sort_key f (rev xs)))"
    by (rule sorted_sort_key)
  then have "sorted_wrt (\<lambda>a b. f a \<le> f b) (sort_key f (rev xs))"
    by (simp add: sorted_map)
  then show ?thesis
    by (simp add: sort_reverse_def sorted_wrt_rev)
qed

lemma strptime_valid: "strptime s = Some (y, m, d) \<Longrightarrow> valid_date y m d"
  by (auto simp: strptime_def split: list.splits if_splits prod.splits)

subsection \<open>Adding a transaction\<close>

text \<open>
  Claim C2. When \<open>float\<close> accepts the amount string and \<open>strptime\<close> accepts the date
  string, \<open>add_transaction\<close> succeeds, and the ledger afterwards holds the transactions it
  held before and one more: the record whose \<open>id\<close> is the former number of transactions
  plus one and whose \<open>amount\<close> is the absolute value of the parsed amount. The stored
  amount is never below zero: a finite amount \<open>r\<close> is stored as \<open>|r|\<close>, the negative zero
  as zero, either infinity as the positive one, and \<open>nan\<close> as \<open>nan\<close>; so a minus sign in
  the input is dropped and not rejected.
\<close>

theorem add_transaction_stores:
  assumes "py_float amount = Some a" and "strptime date_str = Some dt"
  shows "\<exists>l' d' t. add_transaction l d trans_type amount category description date_str
             = ((True, ''Transaction added successfully.''), l', d')
         \<and> mset (transactions l') = add_mset t (mset (transactions l))
         \<and> t = \<lparr>tx_id = length (transactions l) + 1, tx_type = trans_type,
                 tx_amount = fabs a, tx_category = category,
                 tx_description = description, tx_date = strftime_ymd dt\<rparr>
         \<and> \<not> flt0 (tx_amount t)
         \<and> (\<forall>r. a = Finite r \<longrightarrow> tx_amount t = Finite \<bar>r\<bar>)
         \<and> (a = NegZero \<longrightarrow> tx_amount t = Finite 0)
         \<and> (a = PosInf \<or> a = NegInf \<longrightarrow> tx_amount t = PosInf)
         \<and> (a = NaN \<longrightarrow> tx_amount t = NaN)"
proof -
  define t where "t = \<lparr>tx_id = length (transactions l) + 1, tx_type = trans_type,
                 tx_amount = fabs a, tx_category = category,
                 tx_description = description, tx_date = strftime_ymd dt\<rparr>"
  define l' where "l' = l\<lparr>transactions := sort_reverse tx_date (transactions l @ [t])\<rparr>"
  have run: "add_transaction l d trans_type amount category description date_str
             = ((True, ''Transaction added successfully.''), l', save_data l' d)"
    using assms by (simp add: add_transaction_def Let_def t_def l'_def)
  have ms: "mset (transactions l') = add_mset t (mset (transactions l))"
    by (simp add: l'_def mset_sort_reverse)
  have am: "tx_amount t = fabs a"
    by (simp add: t_def)
  have pins: "\<not> flt0 (tx_amount t)
         \<and> (\<forall>r. a = Finite r \<longrightarrow> tx_amount t = Finite \<bar>r\<bar>)
         \<and> (a = NegZero \<longrightarrow> tx_amount t = Finite 0)
         \<and> (a = PosInf \<or> a = NegInf \<longrightarrow> tx_amount t = PosInf)
         \<and> (a = NaN \<longrightarrow> tx_amount t = NaN)"
    unfolding am by (cases a) simp_all
  from run ms pins show ?thesis
    unfolding t_def [symmetric] by blast
qed

theorem add_transaction_stores_witness:
  "py_float ''-12.5'' = Some (Finite (- 25 / 2)) \<and> strptime ''2024-03-09'' = Some (2024, 3, 9) \<and>
   (\<exists>l' d'. add_transaction defaults fresh_disk ''expense'' ''-12.5'' ''Rent'' ''March'' ''2024-03-09''
             = ((True, ''Transaction added successfully.''), l', d')
         \<and> transactions l' =
             [\<lparr>tx_id = 1, tx_type = ''expense'', tx_amount = Finite (25 / 2),
               tx_category = ''Rent'', tx_description = ''March'', tx_date = ''2024-03-09''\<rparr>])"
proof -
  have a: "py_float ''-12.5'' = Some (Finite (- 25 / 2))" by code_simp
  have b: "strptime ''2024-03-09'' = Some (2024, 3, 9)" by code_simp
  have c: "strftime_ymd (2024, 3, 9) = ''2024-03-09''" by code_simp
  have e: "transactions defaults = []" by (simp add: defaults_def)
  from add_transaction_stores [OF a b, of defaults fresh_disk "''expense''" "''Rent''" "''March''"]
  obtain l' d' t where
    run: "add_transaction defaults fresh_disk ''expense'' ''-12.5'' ''Rent'' ''March'' ''2024-03-09''
             = ((True, ''Transaction added successfully.''), l', d')"
    and ms: "mset (transactions l') = add_mset t (mset (transactions defaults))"
    and t: "t = \<lparr>tx_id = length (transactions defaults) + 1, tx_type = ''expense'',
                 tx_amount = fabs (Finite (- 25 / 2)), tx_category = ''Rent'',
                 tx_description = ''March'', tx_date = strftime_ymd (2024, 3, 9)\<rparr>"
    by blast
  from ms have "transactions l' = [t]"
    by (simp add: e)
  with t have "transactions l' =
             [\<lparr>tx_id = 1, tx_type = ''expense'', tx_amount = Finite (25 / 2),
               tx_category = ''Rent'', tx_description = ''March'', tx_date = ''2024-03-09''\<rparr>]"
    by (simp add: c e)
  with run a b show ?thesis by blast
qed

text \<open>
  Claim C3. After a successful \<open>add_transaction\<close> the whole stored sequence, one entry
  longer than before, is sorted by \<open>date\<close> in descending order, whatever the order of the
  ledger was before the call.
\<close>

theorem add_transaction_sorted:
  assumes "add_transaction l d trans_type amount category description date_str = ((True, msg), l', d')"
  shows "sorted_wrt (\<lambda>a b. tx_date b \<le> tx_date a) (transactions l')
         \<and> length (transactions l') = length (transactions l) + 1"
proof -
  from assms obtain t where "transactions l' = sort_reverse tx_date (transactions l @ [t])"
    by (auto simp: add_transaction_def Let_def split: option.splits)
  moreover have "length (sort_reverse tx_date (transactions l @ [t])) = length (transactions l) + 1"
    by (simp add: sort_reverse_def)
  ultimately show ?thesis
    by (simp add: sorted_sort_reverse)
qed

theorem add_transaction_sorted_witness:
  "add_transaction two_entries fresh_disk ''expense'' ''25'' ''Rent'' [] ''2024-2-1''
     = ((True, ''Transaction added successfully.''),
        fst (snd (add_transaction two_entries fresh_disk ''expense'' ''25'' ''Rent'' [] ''2024-2-1'')),
        snd (snd (add_transaction two_entries fresh_disk ''expense'' ''25'' ''Rent'' [] ''2024-2-1'')))
   \<and> sorted_wrt (\<lambda>a b. tx_date b \<le> tx_date a)
        (transactions (fst (snd (add_transaction two_entries fresh_disk ''expense'' ''25'' ''Rent'' [] ''2024-2-1''))))
   \<and> length (transactions (fst (snd (add_transaction two_entries fresh_disk ''expense'' ''25'' ''Rent'' [] ''2024-2-1''))))
       = length (transactions two_entries) + 1
   \<and> map tx_date (transactions (fst (snd (add_transaction two_entries fresh_disk ''expense'' ''25'' ''Rent'' [] ''2024-2-1''))))
       = [''2024-02-20'', ''2024-02-01'', ''2024-01-10'']"
proof -
  have a: "py_float ''25'' = Some (Finite 25)" by code_simp
  have b: "strptime ''2024-2-1'' = Some (2024, 2, 1)" by code_simp
  have h: "add_transaction two_entries fresh_disk ''expense'' ''25'' ''Rent'' [] ''2024-2-1''
     = ((True, ''Transaction added successfully.''),
        fst (snd (add_transaction two_entries fresh_disk ''expense'' ''25'' ''Rent'' [] ''2024-2-1'')),
        snd (snd (add_transaction two_entries fresh_disk ''expense'' ''25'' ''Rent'' [] ''2024-2-1'')))"
    by (simp add: add_transaction_def a b Let_def)
  have c: "map tx_date (transactions (fst (snd (add_transaction two_entries fresh_disk ''expense'' ''25'' ''Rent'' [] ''2024-2-1''))))
       = [''2024-02-20'', ''2024-02-01'', ''2024-01-10'']"
    by code_simp
  show ?thesis
    using h c add_transaction_sorted [OF h] by simp
qed

text \<open>
  Claim C4, as amended. \<open>add_transaction\<close> fails, leaving the ledger and the file as they
  were, when \<open>float\<close> rejects the amount string (\<open>abc\<close>) or \<open>strptime\<close> rejects the date
  string (\<open>2024-13-40\<close>, \<open>01-01-2024\<close>); the result is the same pair of \<open>False\<close> and one
  message in both cases. A date string that \<open>strptime\<close> accepts is a date of the calendar.
\<close>

theorem add_transaction_rejects:
  "(py_float amount = None \<or> strptime date_str = None \<longrightarrow>
      add_transaction l d trans_type amount category description date_str
        = ((False, ''Invalid amount or date format (YYYY-MM-DD).''), l, d))
   \<and> (\<forall>y m dd. strptime date_str = Some (y, m, dd) \<longrightarrow> valid_date y m dd)
   \<and> py_float ''abc'' = None \<and> strptime ''2024-13-40'' = None \<and> strptime ''01-01-2024'' = None"
proof -
  have "py_float ''abc'' = None" by code_simp
  moreover have "strptime ''2024-13-40'' = None" by code_simp
  moreover have "strptime ''01-01-2024'' = None" by code_simp
  moreover have "py_float amount = None \<or> strptime date_str = None \<longrightarrow>
      add_transaction l d trans_type amount category description date_str
        = ((False, ''Invalid amount or date format (YYYY-MM-DD).''), l, d)"
    by (auto simp: add_transaction_def split: option.splits)
  ultimately show ?thesis
    by (simp add: strptime_valid)
qed

theorem add_transaction_rejects_witness:
  "py_float ''abc'' = None
   \<and> add_transaction two_entries fresh_disk ''expense'' ''abc'' ''Rent'' [] ''2024-02-01''
       = ((False, ''Invalid amount or date format (YYYY-MM-DD).''), two_entries, fresh_disk)
   \<and> strptime ''2024-02-30'' = None
   \<and> add_transaction two_entries fresh_disk ''expense'' ''25'' ''Rent'' [] ''2024-02-30''
       = ((False, ''Invalid amount or date format (YYYY-MM-DD).''), two_entries, fresh_disk)
   \<and> strptime ''2024-02-29'' = Some (2024, 2, 29) \<and> valid_date 2024 2 29"
proof -
  have a: "py_float ''abc'' = None" by code_simp
  have b: "strptime ''2024-02-30'' = None" by code_simp
  have c: "strptime ''2024-02-29'' = Some (2024, 2, 29)" by code_simp
  show ?thesis
    using a b c
      add_transaction_rejects [of "''abc''" "''2024-02-01''" two_entries fresh_disk "''expense''" "''Rent''" "[]"]
      add_transaction_rejects [of "''25''" "''2024-02-30''" two_entries fresh_disk "''expense''" "''Rent''" "[]"]
      add_transaction_rejects [of "''25''" "''2024-02-29''" two_entries fresh_disk "''expense''" "''Rent''" "[]"]
    by simp
qed

text \<open>
  The claim as the specification states it fails twice: an amount that is not a number and
  a date that is not on the calendar give results that cannot be told apart, and a date
  that is not written as \<open>YYYY-MM-DD\<close> (\<open>2024-1-5\<close>, stored as \<open>2024-01-05\<close>) is accepted.
\<close>

theorem add_transaction_errors_counterexample:
  "fst (add_transaction defaults fresh_disk ''expense'' ''abc'' ''Rent'' [] ''2024-01-15'')
     = fst (add_transaction defaults fresh_disk ''expense'' ''5'' ''Rent'' [] ''2024-13-40'')
   \<and> fst (add_transaction defaults fresh_disk ''expense'' ''5'' ''Rent'' [] ''2024-1-5'')
       = (True, ''Transaction added successfully.'')
   \<and> map tx_date (transactions (fst (snd
         (add_transaction defaults fresh_disk ''expense'' ''5'' ''Rent'' [] ''2024-1-5''))))
       = [''2024-01-05'']"
proof -
  have a: "py_float ''abc'' = None" by code_simp
  have b: "py_float ''5'' = Some (Finite 5)" by code_simp
  have c: "strptime ''2024-13-40'' = None" by code_simp
  have d: "strptime ''2024-1-5'' = Some (2024, 1, 5)" by code_simp
  have e: "map tx_date (transactions (fst (snd
         (add_transaction defaults fresh_disk ''expense'' ''5'' ''Rent'' [] ''2024-1-5''))))
       = [''2024-01-05'']" by code_simp
  show ?thesis
    using e by (simp add: add_transaction_def a b c d Let_def)
qed

subsection \<open>The monthly report\<close>

lemma fold_spend_step:
  "fold spend_step xs m c =
     (if \<exists>t\<in>set xs. tx_type t = ''expense'' \<and> tx_category t = c
      then Some (foldl fadd (case m c of None \<Rightarrow> Finite 0 | Some v \<Rightarrow> v)
                   (map tx_amount (filter (\<lambda>t. tx_type t = ''expense'' \<and> tx_category t = c) xs)))
      else m c)"
proof (induction xs arbitrary: m)
  case Nil
  then show ?case by simp
next
  case (Cons x xs)
  show ?case
  proof (cases "tx_type x = ''expense'' \<and> tx_category x = c")
    case True
    then have "spend_step x m =
        m(c \<mapsto> fadd (case m c of None \<Rightarrow> Finite 0 | Some v \<Rightarrow> v) (tx_amount x))"
      by (simp add: spend_step_def)
    with True show ?thesis
      by (simp add: Cons.IH)
  next
    case False
    then have "spend_step x m c = m c"
      by (auto simp: spend_step_def)
    with False show ?thesis
      by (auto simp: Cons.IH)
  qed
qed

text \<open>
  Claim C1. The report of \<open>get_monthly_report_data\<close> depends on the ledger only through
  the transactions whose \<open>date\<close> starts with the \<open>YYYY-MM\<close> string of \<open>now\<close>. Over these,
  \<open>total_income\<close> is the sum of the amounts of the income transactions, \<open>total_expense\<close>
  the sum of the amounts of the expense transactions, \<open>net_savings\<close> their difference, and
  \<open>spending_by_category\<close> has a key exactly for the categories with an expense among them,
  holding the sum of the amounts of these expenses.
\<close>

theorem monthly_report:
  "let r = get_monthly_report_data l now;
       mt = filter (\<lambda>t. startswith (tx_date t) (strftime_ym now)) (transactions l)
   in get_monthly_report_data (l\<lparr>transactions := mt\<rparr>) now = r
      \<and> total_income r = py_sum (map tx_amount (filter (\<lambda>t. tx_type t = ''income'') mt))
      \<and> total_expense r = py_sum (map tx_amount (filter (\<lambda>t. tx_type t = ''expense'') mt))
      \<and> net_savings r = fsub (total_income r) (total_expense r)
      \<and> (\<forall>c. spending_by_category r c =
            (if \<exists>t\<in>set mt. tx_type t = ''expense'' \<and> tx_category t = c
             then Some (py_sum (map tx_amount
                          (filter (\<lambda>t. tx_type t = ''expense'' \<and> tx_category t = c) mt)))
             else None))"
  by (auto simp: get_monthly_report_data_def Let_def fold_spend_step py_sum_def)

theorem monthly_report_witness:
  "(let r = get_monthly_report_data march_ledger (2024, 3, 15)
    in total_income r = Finite 1000 \<and> total_expense r = Finite 300 \<and> net_savings r = Finite 700
       \<and> spending_by_category r ''Rent'' = Some (Finite 300)
       \<and> spending_by_category r ''Dining'' = None
       \<and> month_name r = ''March 2024'')
   \<and> filter (\<lambda>t. startswith (tx_date t) (strftime_ym (2024, 3, 15))) (transactions march_ledger)
       = [tx 1 ''income'' 1000 ''Salary'' ''2024-03-05'', tx 2 ''expense'' 300 ''Rent'' ''2024-03-01'']"
proof -
  have f: "filter (\<lambda>t. startswith (tx_date t) (strftime_ym (2024, 3, 15))) (transactions march_ledger)
       = [tx 1 ''income'' 1000 ''Salary'' ''2024-03-05'', tx 2 ''expense'' 300 ''Rent'' ''2024-03-01'']"
    by code_simp
  have m: "month_name (get_monthly_report_data march_ledger (2024, 3, 15)) = ''March 2024''"
    by code_simp
  show ?thesis
    using monthly_report [of march_ledger "(2024, 3, 15)"] m
    unfolding f Let_def
    by (simp add: tx_def py_sum_def fsub_def)
qed

subsection \<open>Saving and loading\<close>











subsection \<open>Categories\<close>

text \<open>
  Trimming and title-casing a name twice is the same as doing it once. The default names
  are in this form and \<open>add_category\<close> only stores names in this form, so that from the
  defaults on the test for a duplicate compares the normal forms of the stored names with
  the normal form of the new one.
\<close>

lemma cased_to_lower: "(is_upper (to_lower c) \<or> is_lower (to_lower c)) = (is_upper c \<or> is_lower c)"
  by (auto simp: to_lower_def is_upper_def is_lower_def Let_def)

lemma cased_to_upper: "(is_upper (to_upper c) \<or> is_lower (to_upper c)) = (is_upper c \<or> is_lower c)"
  by (auto simp: to_upper_def is_upper_def is_lower_def Let_def)

lemma to_lower_idem: "to_lower (to_lower c) = to_lower c"
  by (auto simp: to_lower_def is_upper_def Let_def)

lemma to_upper_idem: "to_upper (to_upper c) = to_upper c"
  by (auto simp: to_upper_def is_lower_def Let_def)

lemma space_to_lower: "is_space (to_lower c) = is_space c"
  by (auto simp: to_lower_def is_upper_def is_space_def Let_def)

lemma space_to_upper: "is_space (to_upper c) = is_space c"
  by (auto simp: to_upper_def is_lower_def is_space_def Let_def)

lemma title_from_idem: "title_from p (title_from p s) = title_from p s"
  by (induction s arbitrary: p) (simp_all add: cased_to_lower cased_to_upper to_lower_idem to_upper_idem)

lemma title_from_Nil: "(title_from p s = []) = (s = [])"
  by (cases s) simp_all

lemma title_from_hd: "s \<noteq> [] \<Longrightarrow> is_space (hd (title_from p s)) = is_space (hd s)"
  by (cases s) (simp_all add: space_to_lower space_to_upper)

lemma title_from_last: "s \<noteq> [] \<Longrightarrow> is_space (last (title_from p s)) = is_space (last s)"
  by (induction s arbitrary: p) (auto simp: space_to_lower space_to_upper title_from_Nil)

lemma strip_ends: "strip s \<noteq> [] \<Longrightarrow> \<not> is_space (hd (strip s)) \<and> \<not> is_space (last (strip s))"
proof -
  assume ne: "strip s \<noteq> []"
  define t where "t = dropWhile is_space s"
  define u where "u = dropWhile is_space (rev t)"
  have u: "u \<noteq> []" and s: "strip s = rev u"
    using ne by (simp_all add: strip_def u_def t_def)
  have "\<not> is_space (hd u)"
    using u by (simp add: u_def hd_dropWhile)
  then have l: "\<not> is_space (last (strip s))"
    using u by (simp add: s last_rev)
  have "t \<noteq> []" using u by (auto simp: u_def)
  then have h: "\<not> is_space (hd t)"
    by (simp add: t_def hd_dropWhile)
  obtain v where "rev t = v @ u"
    unfolding u_def by (metis takeWhile_dropWhile_id)
  then have "t = rev u @ rev v"
    by (metis rev_append rev_rev_ident)
  with u have "hd (strip s) = hd t"
    by (simp add: s)
  with h l show ?thesis by simp
qed

lemma strip_fixed: "t = [] \<or> (\<not> is_space (hd t) \<and> \<not> is_space (last t)) \<Longrightarrow> strip t = t"
proof (cases "t = []")
  case True
  then show ?thesis by (simp add: strip_def)
next
  case False
  assume "t = [] \<or> (\<not> is_space (hd t) \<and> \<not> is_space (last t))"
  with False have h: "\<not> is_space (hd t)" and l: "\<not> is_space (last t)" by auto
  from False h have a: "dropWhile is_space t = t"
    by (cases t) simp_all
  from False l have "dropWhile is_space (rev t) = rev t"
    by (cases "rev t") (simp_all add: last_rev [symmetric] hd_rev)
  with a show ?thesis by (simp add: strip_def)
qed

lemma normalize_idem: "title (strip (title (strip s))) = title (strip s)"
proof -
  have "strip (title (strip s)) = title (strip s)"
  proof (rule strip_fixed)
    show "title (strip s) = [] \<or>
          (\<not> is_space (hd (title (strip s))) \<and> \<not> is_space (last (title (strip s))))"
      using strip_ends [of s]
      by (cases "strip s = []") (simp_all add: title_def title_from_Nil title_from_hd title_from_last)
  qed
  then show ?thesis
    by (simp add: title_def title_from_idem)
qed

lemma defaults_normalized: "names_normalized defaults"
proof -
  have "list_all (\<lambda>c. title (strip c) = c)
          [''Groceries'', ''Rent'', ''Transport'', ''Dining'', ''Utilities'', ''Other'',
           ''Salary'', ''Bonus'', ''Gifts'']"
    by code_simp
  then show ?thesis
    by (auto simp: names_normalized_def defaults_def default_categories_def split: if_splits)
qed

lemma add_category_normalized:
  assumes "names_normalized l" and "add_category l d new_category trans_type = Inr (r, l', d')"
  shows "names_normalized l'"
proof (cases "title (strip new_category) = []")
  case True
  with assms show ?thesis
    by (simp add: add_category_def)
next
  case False
  show ?thesis
  proof (cases "categories l trans_type")
    case None
    with assms False show ?thesis
      by (simp add: add_category_def)
  next
    case (Some cs)
    show ?thesis
    proof (cases "title (strip new_category) \<in> set cs")
      case True
      with assms False Some show ?thesis
        by (simp add: add_category_def)
    next
      case notin: False
      with assms(2) False Some
      have "l' = l\<lparr>categories := (categories l)(trans_type \<mapsto> cs @ [title (strip new_category)])\<rparr>"
        by (simp add: add_category_def Let_def)
      with assms(1) Some show ?thesis
        by (auto simp: names_normalized_def normalize_idem)
    qed
  qed
qed

lemma duplicate_test_normalized:
  assumes "names_normalized l" and "categories l trans_type = Some cs"
  shows "(title (strip new_category) \<in> set cs)
           = (\<exists>c\<in>set cs. title (strip c) = title (strip new_category))"
  using assms by (auto simp: names_normalized_def)

text \<open>
  Claim C6. For a type that has a list of categories, \<open>add_category\<close> trims and
  title-cases the name; an empty result is refused with the message for an empty name, a
  result that is already in the list of the type is refused with the message for a
  duplicate, and any other result is appended at the end of that list, with a message that
  confirms it. A refusal changes nothing.
\<close>

theorem add_category_cases:
  assumes "categories l trans_type = Some cs"
  shows "(title (strip new_category) = [] \<longrightarrow>
            add_category l d new_category trans_type
              = Inr ((False, ''Category name cannot be empty.''), l, d))
         \<and> (title (strip new_category) \<noteq> [] \<and> title (strip new_category) \<in> set cs \<longrightarrow>
            add_category l d new_category trans_type
              = Inr ((False, ''Category already exists.''), l, d))
         \<and> (title (strip new_category) \<noteq> [] \<and> title (strip new_category) \<notin> set cs \<longrightarrow>
            (\<exists>l' d'. add_category l d new_category trans_type
                = Inr ((True, ''Category '' @ [CHR 0x27] @ title (strip new_category)
                               @ [CHR 0x27] @ '' added.''), l', d')
              \<and> get_categories l' trans_type
                  = get_categories l trans_type @ [title (strip new_category)]
              \<and> (\<forall>ty. ty \<noteq> trans_type \<longrightarrow> categories l' ty = categories l ty)
              \<and> d' = save_data l' d))"
  using assms by (simp add: add_category_def Let_def get_categories_def)

theorem add_category_cases_witness:
  "categories defaults ''expense''
     = Some [''Groceries'', ''Rent'', ''Transport'', ''Dining'', ''Utilities'', ''Other'']
   \<and> title (strip ''groceries'') = ''Groceries''
   \<and> add_category defaults fresh_disk ''groceries'' ''expense''
       = Inr ((False, ''Category already exists.''), defaults, fresh_disk)
   \<and> title (strip []) = []
   \<and> add_category defaults fresh_disk [] ''expense''
       = Inr ((False, ''Category name cannot be empty.''), defaults, fresh_disk)
   \<and> title (strip ''  pet CARE '') = ''Pet Care''
   \<and> (\<exists>l' d'. add_category defaults fresh_disk ''  pet CARE '' ''expense''
                = Inr ((True, ''Category '' @ [CHR 0x27] @ ''Pet Care'' @ [CHR 0x27] @ '' added.''), l', d')
              \<and> get_categories l' ''expense''
                  = [''Groceries'', ''Rent'', ''Transport'', ''Dining'', ''Utilities'', ''Other'',
                     ''Pet Care''])"
proof -
  have c: "categories defaults ''expense''
     = Some [''Groceries'', ''Rent'', ''Transport'', ''Dining'', ''Utilities'', ''Other'']"
    by (simp add: defaults_def default_categories_def)
  have g: "get_categories defaults ''expense''
     = [''Groceries'', ''Rent'', ''Transport'', ''Dining'', ''Utilities'', ''Other'']"
    by (simp add: get_categories_def c)
  have t1: "title (strip ''groceries'') = ''Groceries''" by code_simp
  have t2: "title (strip []) = []" by code_simp
  have t3: "title (strip ''  pet CARE '') = ''Pet Care''" by code_simp
  show ?thesis
    using add_category_cases [OF c, of "''groceries''" fresh_disk]
      add_category_cases [OF c, of "[]" fresh_disk]
      add_category_cases [OF c, of "''  pet CARE ''" fresh_disk]
    unfolding t1 t2 t3 g
    using c by auto
qed

text \<open>
  Claim C10, as amended. For a type that is not a key of the categories (with the
  defaults: any string other than \<open>expense\<close> and \<open>income\<close>), \<open>get_categories\<close> returns
  the empty list; \<open>add_category\<close> raises \<open>KeyError\<close> when the trimmed and title-cased
  name is not empty, and returns the refusal for an empty name when it is empty.
\<close>

theorem unknown_type:
  "(trans_type \<noteq> ''expense'' \<and> trans_type \<noteq> ''income'' \<longrightarrow> categories defaults trans_type = None)
   \<and> (categories l trans_type = None \<longrightarrow>
        get_categories l trans_type = []
        \<and> (title (strip new_category) \<noteq> [] \<longrightarrow>
             add_category l d new_category trans_type = Inl (KeyError trans_type))
        \<and> (title (strip new_category) = [] \<longrightarrow>
             add_category l d new_category trans_type
               = Inr ((False, ''Category name cannot be empty.''), l, d)))"
  by (simp add: defaults_def default_categories_def get_categories_def add_category_def Let_def)

theorem unknown_type_witness:
  "categories defaults ''savings'' = None
   \<and> get_categories defaults ''savings'' = []
   \<and> title (strip ''stocks'') = ''Stocks''
   \<and> add_category defaults fresh_disk ''stocks'' ''savings'' = Inl (KeyError ''savings'')"
proof -
  have t: "title (strip ''stocks'') = ''Stocks''" by code_simp
  show ?thesis
    using unknown_type [of "''savings''" defaults "''stocks''" fresh_disk]
    unfolding t by simp
qed

text \<open>
  The claim as the specification states it fails for a name that is empty after trimming:
  the type is then never looked up, and the call returns instead of raising.
\<close>

theorem unknown_type_counterexample:
  "categories defaults ''savings'' = None
   \<and> add_category defaults fresh_disk ''   '' ''savings''
       = Inr ((False, ''Category name cannot be empty.''), defaults, fresh_disk)"
proof -
  have t: "title (strip ''   '') = []" by code_simp
  show ?thesis
    by (simp add: add_category_def t defaults_def default_categories_def)
qed

subsection \<open>Budgets\<close>

text \<open>
  Claim C7. \<open>set_budget\<close> parses the amount string with \<open>float\<close>. A string that
  \<open>float\<close> rejects is refused with the message for an invalid amount, an amount below
  zero (\<open>-5\<close>) with the message for a negative amount, and both refusals change neither
  the budgets nor anything else. Any other amount is stored under the category, replacing
  what was stored there, so that \<open>get_budgets\<close> then returns the old budgets with this one
  entry set.
\<close>

theorem set_budget_cases:
  "(py_float amount = None \<longrightarrow>
      set_budget l d category amount = ((False, ''Invalid amount.''), l, d))
   \<and> (\<forall>a. py_float amount = Some a \<and> flt0 a \<longrightarrow>
      set_budget l d category amount = ((False, ''Budget amount cannot be negative.''), l, d))
   \<and> (\<forall>a. py_float amount = Some a \<and> \<not> flt0 a \<longrightarrow>
      (\<exists>msg l' d'. set_budget l d category amount = ((True, msg), l', d')
         \<and> get_budgets l' = (get_budgets l)(category \<mapsto> a)
         \<and> l' = l\<lparr>budgets := get_budgets l'\<rparr> \<and> d' = save_data l' d))"
  by (simp add: set_budget_def Let_def get_budgets_def)

theorem set_budget_cases_witness:
  "py_float ''-5'' = Some (Finite (- 5)) \<and> flt0 (Finite (- 5))
   \<and> set_budget defaults fresh_disk ''Rent'' ''-5''
       = ((False, ''Budget amount cannot be negative.''), defaults, fresh_disk)
   \<and> py_float ''12,50'' = None
   \<and> set_budget defaults fresh_disk ''Rent'' ''12,50''
       = ((False, ''Invalid amount.''), defaults, fresh_disk)
   \<and> py_float ''500'' = Some (Finite 500) \<and> \<not> flt0 (Finite 500)
   \<and> (\<exists>msg l' d'. set_budget defaults fresh_disk ''Rent'' ''500'' = ((True, msg), l', d')
         \<and> get_budgets l' ''Rent'' = Some (Finite 500))"
proof -
  have a: "py_float ''-5'' = Some (Finite (- 5))" by code_simp
  have b: "py_float ''12,50'' = None" by code_simp
  have c: "py_float ''500'' = Some (Finite 500)" by code_simp
  show ?thesis
    using a b c
      set_budget_cases [of "''-5''" defaults fresh_disk "''Rent''"]
      set_budget_cases [of "''12,50''" defaults fresh_disk "''Rent''"]
      set_budget_cases [of "''500''" defaults fresh_disk "''Rent''"]
    by auto
qed

text \<open>\<open>set_budget\<close> keeps every stored budget at least zero, \<open>nan\<close> apart.\<close>

lemma set_budget_values:
  assumes "\<forall>c v. budgets l c = Some v \<longrightarrow> fge0 v \<or> v = NaN"
    and "set_budget l d category amount = (r, l', d')"
  shows "\<forall>c v. budgets l' c = Some v \<longrightarrow> fge0 v \<or> v = NaN"
proof (cases "py_float amount")
  case None
  with assms show ?thesis
    by (simp add: set_budget_def)
next
  case (Some a)
  show ?thesis
  proof (cases "flt0 a")
    case True
    with assms Some show ?thesis
      by (simp add: set_budget_def)
  next
    case False
    then have "fge0 a \<or> a = NaN"
      by (cases a) auto
    moreover from assms(2) Some False have "budgets l' = (budgets l)(category \<mapsto> a)"
      by (auto simp: set_budget_def Let_def)
    ultimately show ?thesis
      using assms(1) by auto
  qed
qed

text \<open>
  Claim C8. The budgets are meant to hold numbers that are at least zero, and \<open>set_budget\<close>
  refuses what is below zero; but the test \<open>amount < 0\<close> is false for \<open>nan\<close>, which
  \<open>float\<close> accepts. On the object that \<open>__init__\<close> builds when there is no data file,
  \<open>set_budget\<close> with the amount \<open>nan\<close> succeeds and stores a value for which
  \<open>amount >= 0\<close> is false as well.
\<close>

theorem set_budget_nan:
  "init fresh_disk = Inr (defaults, save_data defaults fresh_disk)
   \<and> py_float ''nan'' = Some NaN
   \<and> fst (set_budget defaults (save_data defaults fresh_disk) ''Rent'' ''nan'')
       = (True, ''Budget for Rent set to $nan.'')
   \<and> get_budgets (fst (snd (set_budget defaults (save_data defaults fresh_disk) ''Rent'' ''nan'')))
        ''Rent'' = Some NaN
   \<and> \<not> fge0 NaN"
proof -
  have a: "py_float ''nan'' = Some NaN" by code_simp
  have i: "init fresh_disk = Inr (defaults, save_data defaults fresh_disk)"
    by (simp add: init_def load_data_def fresh_disk_def)
  show ?thesis
    by (simp add: a i set_budget_def Let_def get_budgets_def format_currency_def defaults_def)
qed

subsection \<open>Formatting an amount\<close>

lemma digit_string_nth:
  "\<forall>k<10::nat. is_digit (''0123456789'' ! k) \<and> dval (''0123456789'' ! k) = k"
  by (auto simp: eval_nat_numeral less_Suc_eq is_digit_def dval_def digit_val_def)

lemma digit_char_props: "is_digit (digit_char n) \<and> dval (digit_char n) = n mod 10"
  using digit_string_nth by (simp add: digit_char_def)

lemma nat_of_digits_snoc: "nat_of_digits (xs @ [c]) = 10 * nat_of_digits xs + dval c"
  by (simp add: nat_of_digits_def)

lemma show_nat_props:
  "show_nat n \<noteq> [] \<and> list_all is_digit (show_nat n) \<and> nat_of_digits (show_nat n) = n"
proof (induction n rule: show_nat.induct)
  case (1 n)
  show ?case
  proof (cases "n < 10")
    case True
    then show ?thesis
      using nat_of_digits_snoc [of "[]" "digit_char n"]
      by (simp add: show_nat.simps [of n] digit_char_props nat_of_digits_def)
  next
    case False
    with 1 show ?thesis
      by (simp add: show_nat.simps [of n] digit_char_props nat_of_digits_snoc)
  qed
qed

lemma round_half_even_near: "\<bar>of_int (round_half_even x) - x\<bar> \<le> 1 / 2"
proof -
  have "of_int \<lfloor>x\<rfloor> \<le> x" and "x < of_int \<lfloor>x\<rfloor> + 1"
    by linarith+
  then show ?thesis
    by (auto simp: round_half_even_def Let_def)
qed

lemma round_half_even_nonneg: "0 \<le> x \<Longrightarrow> 0 \<le> round_half_even x"
  by (auto simp: round_half_even_def Let_def)

lemma two_digits: "10 * (10 * (n div 100) + n mod 100 div 10 mod 10) + n mod 100 mod 10 = (n::nat)"
proof -
  define q where "q = n div 100"
  define m where "m = n mod 100"
  define a where "a = m div 10"
  define b where "b = m mod 10"
  have "m < 100" by (simp add: m_def)
  then have "a < 10" by (simp add: a_def)
  then have "a mod 10 = a" by simp
  moreover have "m = 10 * a + b" by (simp add: a_def b_def)
  moreover have "n = 100 * q + m" by (simp add: q_def m_def)
  ultimately have "10 * (10 * q + a mod 10) + b = n" by simp
  then show ?thesis by (simp only: q_def m_def a_def b_def)
qed

lemma fixed2_value:
  "nat_of_digits (show_nat (n div 100) @ [digit_char (n mod 100 div 10), digit_char (n mod 100)]) = n"
proof -
  have "nat_of_digits ((show_nat (n div 100) @ [digit_char (n mod 100 div 10)]) @ [digit_char (n mod 100)])
      = 10 * (10 * (n div 100) + n mod 100 div 10 mod 10) + n mod 100 mod 10"
    by (simp only: nat_of_digits_snoc show_nat_props digit_char_props)
  then show ?thesis
    by (simp only: two_digits append_assoc append_Cons append_Nil)
qed

lemma fixed2_shape:
  assumes "0 \<le> x"
  shows "\<exists>ip d1 d2. fixed2 x = ip @ [CHR ''.'', d1, d2]
           \<and> ip \<noteq> [] \<and> list_all is_digit ip \<and> is_digit d1 \<and> is_digit d2
           \<and> \<bar>of_nat (nat_of_digits (ip @ [d1, d2])) / 100 - x\<bar> \<le> 1 / 200"
proof -
  define n where "n = nat (round_half_even (x * 100))"
  have "0 \<le> round_half_even (x * 100)"
    using assms by (simp add: round_half_even_nonneg)
  then have "(of_nat n :: rat) = of_int (round_half_even (x * 100))"
    by (simp add: n_def)
  moreover have "\<bar>of_int (round_half_even (x * 100)) - x * 100\<bar> \<le> 1 / 2"
    by (rule round_half_even_near)
  ultimately have near: "\<bar>of_nat n / 100 - x\<bar> \<le> 1 / 200"
    by linarith
  have shape: "fixed2 x = show_nat (n div 100) @ [CHR ''.'', digit_char (n mod 100 div 10), digit_char (n mod 100)]"
    by (simp add: fixed2_def Let_def pad2_def n_def)
  show ?thesis
  proof (intro exI conjI)
    show "fixed2 x = show_nat (n div 100) @ [CHR ''.'', digit_char (n mod 100 div 10), digit_char (n mod 100)]"
      by (rule shape)
    show "show_nat (n div 100) \<noteq> []" by (simp add: show_nat_props)
    show "list_all is_digit (show_nat (n div 100))" by (simp add: show_nat_props)
    show "is_digit (digit_char (n mod 100 div 10))" by (simp add: digit_char_props)
    show "is_digit (digit_char (n mod 100))" by (simp add: digit_char_props)
    show "\<bar>of_nat (nat_of_digits (show_nat (n div 100) @ [digit_char (n mod 100 div 10), digit_char (n mod 100)])) / 100 - x\<bar> \<le> 1 / 200"
      by (simp only: fixed2_value near)
  qed
qed

text \<open>
  Claim C9, as amended. For every finite amount and every currency symbol,
  \<open>format_currency\<close> returns the symbol, then a minus sign when the amount is below zero,
  then a decimal number with a nonempty integer part and exactly two digits after the
  point, which differs from the absolute value of the amount by at most half a hundredth.
  The negative zero is written \<open>-0.00\<close>, and \<open>1234.5\<close> with the symbol of the euro is
  written as that symbol followed by \<open>1234.50\<close>.
\<close>

theorem format_currency_finite:
  "(\<exists>ip d1 d2. format_currency l (Finite r)
        = currency_symbol l @ (if r < 0 then ''-'' else []) @ ip @ [CHR ''.'', d1, d2]
      \<and> ip \<noteq> [] \<and> list_all is_digit ip \<and> is_digit d1 \<and> is_digit d2
      \<and> \<bar>of_nat (nat_of_digits (ip @ [d1, d2])) / 100 - \<bar>r\<bar>\<bar> \<le> 1 / 200)
   \<and> format_currency l NegZero = currency_symbol l @ ''-0.00''
   \<and> format_currency (l\<lparr>currency_symbol := euro\<rparr>) (Finite (2469 / 2)) = euro @ ''1234.50''"
proof -
  have ex: "format_currency (l\<lparr>currency_symbol := euro\<rparr>) (Finite (2469 / 2)) = euro @ ''1234.50''"
    by (simp add: format_currency_def fixed2_def round_half_even_def pad2_def digit_char_def show_nat.simps)
  have "\<exists>ip d1 d2. format_currency l (Finite r)
        = currency_symbol l @ (if r < 0 then ''-'' else []) @ ip @ [CHR ''.'', d1, d2]
      \<and> ip \<noteq> [] \<and> list_all is_digit ip \<and> is_digit d1 \<and> is_digit d2
      \<and> \<bar>of_nat (nat_of_digits (ip @ [d1, d2])) / 100 - \<bar>r\<bar>\<bar> \<le> 1 / 200"
  proof (cases "r < 0")
    case True
    then have "0 \<le> - r" by simp
    from fixed2_shape [OF this] True show ?thesis
      by (auto simp: format_currency_def)
  next
    case False
    then have "0 \<le> r" by simp
    from fixed2_shape [OF this] False show ?thesis
      by (auto simp: format_currency_def)
  qed
  with ex show ?thesis
    by (simp add: format_currency_def)
qed

theorem format_currency_finite_witness:
  "format_currency two_entries (Finite (- 1234 / 100)) = ''$-12.34''
   \<and> (\<exists>ip d1 d2. ''$-12.34'' = ''$'' @ ''-'' @ ip @ [CHR ''.'', d1, d2]
      \<and> ip \<noteq> [] \<and> list_all is_digit ip \<and> is_digit d1 \<and> is_digit d2
      \<and> \<bar>of_nat (nat_of_digits (ip @ [d1, d2])) / 100 - \<bar>- 1234 / 100 :: rat\<bar>\<bar> \<le> 1 / 200)"
proof -
  have v: "format_currency two_entries (Finite (- 1234 / 100)) = ''$-12.34''"
    by (simp add: format_currency_def fixed2_def round_half_even_def pad2_def digit_char_def
        show_nat.simps two_entries_def defaults_def)
  have s: "currency_symbol two_entries = ''$''"
    by (simp add: two_entries_def defaults_def)
  show ?thesis
    using format_currency_finite [of two_entries "- 1234 / 100"]
    unfolding v s by simp
qed

text \<open>
  The claim as the specification states it fails for the amounts that are not finite:
  they are written as words, without a decimal point.
\<close>

theorem format_currency_counterexample:
  "format_currency defaults PosInf = ''$inf'' \<and> format_currency defaults NaN = ''$nan''
   \<and> py_float ''inf'' = Some PosInf"
proof -
  have "py_float ''inf'' = Some PosInf" by code_simp
  then show ?thesis
    by (simp add: format_currency_def defaults_def)
qed

end
